theory Spec2Isabelle
  imports Complex_Main
begin

section \<open>Express-Jobly: update builder, authorization middleware, job filter\<close>

text \<open>
  A shallow embedding of three parts of the application:
  \<^item> \<^verbatim>\<open>helpers/sql.js\<close>: \<^verbatim>\<open>sqlForPartialUpdate\<close>;
  \<^item> \<^verbatim>\<open>middleware/auth.js\<close>: \<^verbatim>\<open>authenticateJWT\<close>, \<^verbatim>\<open>ensureLoggedIn\<close>,
    \<^verbatim>\<open>ensureAdmin\<close>, \<^verbatim>\<open>ensureAdminOrUser\<close>, and the way a route chains them;
  \<^item> \<^verbatim>\<open>models/job.js\<close>: \<^verbatim>\<open>Job.filterJobs\<close>.

  JavaScript strings are modelled as \<^typ>\<open>string\<close> restricted to ASCII, \<^verbatim>\<open>undefined\<close>
  (an absent property) as \<^term>\<open>None\<close>, a thrown exception as \<^term>\<open>Inl\<close> of the error.
\<close>

subsection \<open>Errors\<close>

text \<open>
  The three classes of \<^verbatim>\<open>expressError.js\<close> the code throws, the \<^verbatim>\<open>TypeError\<close> the
  JavaScript runtime throws when a property of \<^verbatim>\<open>undefined\<close> is read, and the error
  \<^verbatim>\<open>jwt.verify\<close> throws on a token it rejects.
\<close>

datatype error =
    BadRequestError string
  | UnauthorizedError
  | NotFoundError string
  | TypeError
  | JsonWebTokenError

subsection \<open>JavaScript primitives used by the code\<close>

text \<open>Truthiness of a value that is a string, a number, a boolean or an object, or is absent.\<close>

definition truthy_string :: "string option \<Rightarrow> bool" where
  "truthy_string v = (case v of None \<Rightarrow> False | Some s \<Rightarrow> s \<noteq> [])"

definition truthy_number :: "int option \<Rightarrow> bool" where
  "truthy_number v = (case v of None \<Rightarrow> False | Some n \<Rightarrow> n \<noteq> 0)"

definition truthy_boolean :: "bool option \<Rightarrow> bool" where
  "truthy_boolean v = (case v of None \<Rightarrow> False | Some b \<Rightarrow> b)"

definition truthy_object :: "'a option \<Rightarrow> bool" where
  "truthy_object v = (case v of None \<Rightarrow> False | Some obj \<Rightarrow> True)"

text \<open>\<^verbatim>\<open>a || b\<close> on strings: \<^verbatim>\<open>a\<close> when it is truthy, \<^verbatim>\<open>b\<close> otherwise.\<close>

definition js_or :: "string option \<Rightarrow> string \<Rightarrow> string" where
  "js_or a b = (case a of None \<Rightarrow> b | Some s \<Rightarrow> if s \<noteq> [] then s else b)"

text \<open>The decimal text of a number, as a template literal prints it.\<close>

function string_of_nat :: "nat \<Rightarrow> string" where
  "string_of_nat n =
     (if n < 10 then [''0123456789'' ! n]
      else string_of_nat (n div 10) @ [''0123456789'' ! (n mod 10)])"
  by pat_completeness auto
termination
  by (relation "measure id") auto

text \<open>\<^verbatim>\<open>Array.prototype.join\<close>.\<close>

fun join :: "string list \<Rightarrow> string \<Rightarrow> string" where
  "join [] sep = []"
| "join [x] sep = x"
| "join (x # y # ys) sep = x @ sep @ join (y # ys) sep"

text \<open>\<^verbatim>\<open>String.prototype.startsWith\<close> and \<^verbatim>\<open>String.prototype.includes\<close>.\<close>

fun startsWith :: "string \<Rightarrow> string \<Rightarrow> bool" where
  "startsWith s [] = True"
| "startsWith [] (c # t) = False"
| "startsWith (a # s) (b # t) = (a = b \<and> startsWith s t)"

fun includes_str :: "string \<Rightarrow> string \<Rightarrow> bool" where
  "includes_str [] t = (t = [])"
| "includes_str (c # s) t = (startsWith (c # s) t \<or> includes_str s t)"

text \<open>\<^verbatim>\<open>String.prototype.toLowerCase\<close> on ASCII: the 26 capital letters are mapped.\<close>

definition toLowerCase_char :: "char \<Rightarrow> char" where
  "toLowerCase_char c =
     (case map_of (zip ''ABCDEFGHIJKLMNOPQRSTUVWXYZ'' ''abcdefghijklmnopqrstuvwxyz'') c of
        Some l \<Rightarrow> l
      | None \<Rightarrow> c)"

definition toLowerCase :: "string \<Rightarrow> string" where
  "toLowerCase s = map toLowerCase_char s"

text \<open>\<^verbatim>\<open>String.prototype.trim\<close> on ASCII: space, tab, line feed, vertical tab, form feed,
  carriage return are removed from both ends.\<close>

definition is_whitespace :: "char \<Rightarrow> bool" where
  "is_whitespace c = (c \<in> set [CHR '' '', CHR 0x09, CHR 0x0A, CHR 0x0B, CHR 0x0C, CHR 0x0D])"

definition trim :: "string \<Rightarrow> string" where
  "trim s = rev (dropWhile is_whitespace (rev (dropWhile is_whitespace s)))"

subsection \<open>helpers/sql.js\<close>

text \<open>
  \<^verbatim>\<open>dataToUpdate\<close> is an object read through \<^verbatim>\<open>Object.keys\<close> and \<^verbatim>\<open>Object.values\<close>: it is
  modelled as the list of its entries in that iteration order. \<^verbatim>\<open>jsToSql\<close> is an object
  literal whose own entries map strings to strings.
\<close>

record 'v sql_update =
  setCols :: string
  "values" :: "'v list"

text \<open>
  An object literal inherits the properties of \<^verbatim>\<open>Object.prototype\<close>. Each inherited value
  is a function, or for \<^verbatim>\<open>__proto__\<close> the prototype object itself: all are truthy, and each
  stands here for the text a template literal prints for it.
\<close>

definition Object_prototype :: "(string \<times> string) list" where
  "Object_prototype =
     [(''constructor'', ''function Object() { [native code] }''),
      (''__defineGetter__'', ''function __defineGetter__() { [native code] }''),
      (''__defineSetter__'', ''function __defineSetter__() { [native code] }''),
      (''hasOwnProperty'', ''function hasOwnProperty() { [native code] }''),
      (''__lookupGetter__'', ''function __lookupGetter__() { [native code] }''),
      (''__lookupSetter__'', ''function __lookupSetter__() { [native code] }''),
      (''isPrototypeOf'', ''function isPrototypeOf() { [native code] }''),
      (''propertyIsEnumerable'', ''function propertyIsEnumerable() { [native code] }''),
      (''toString'', ''function toString() { [native code] }''),
      (''valueOf'', ''function valueOf() { [native code] }''),
      (''__proto__'', ''[object Object]''),
      (''toLocaleString'', ''function toLocaleString() { [native code] }'')]"

text \<open>The property read \<^verbatim>\<open>obj[key]\<close>: an own entry first, an inherited property otherwise,
  \<^verbatim>\<open>undefined\<close> when there is neither.\<close>

definition js_get :: "(string \<rightharpoonup> string) \<Rightarrow> string \<Rightarrow> string option" where
  "js_get obj key = (case obj key of Some v \<Rightarrow> Some v | None \<Rightarrow> map_of Object_prototype key)"

text \<open>\<^verbatim>\<open>keys.map((colName, idx) => `"${jsToSql[colName] || colName}"=$${idx + 1}`)\<close>,
  from index \<open>idx\<close> on.\<close>

fun cols_from :: "(string \<rightharpoonup> string) \<Rightarrow> nat \<Rightarrow> string list \<Rightarrow> string list" where
  "cols_from jsToSql idx [] = []"
| "cols_from jsToSql idx (colName # keys) =
     ([CHR 0x22] @ js_or (js_get jsToSql colName) colName @ [CHR 0x22] @ ''=$''
        @ string_of_nat (idx + 1))
       # cols_from jsToSql (idx + 1) keys"

definition sqlForPartialUpdate ::
  "(string \<times> 'v) list \<Rightarrow> (string \<rightharpoonup> string) \<Rightarrow> error + 'v sql_update" where
  "sqlForPartialUpdate dataToUpdate jsToSql =
     (let keys = map fst dataToUpdate in
      if length keys = 0 then Inl (BadRequestError ''No data'')
      else
        let cols = cols_from jsToSql 0 keys in
        Inr \<lparr>setCols = join cols '', '', values = map snd dataToUpdate\<rparr>)"

text \<open>The values of the example of the source's comments and tests: a string and a number.\<close>

datatype js_value = Str string | Num int

paragraph \<open>The builder as the specification words it\<close>

text \<open>
  The physical column name: looked up in the column map, the logical name when the map
  has no entry.
\<close>

definition spec_physical_column :: "(string \<rightharpoonup> string) \<Rightarrow> string \<Rightarrow> string" where
  "spec_physical_column columnMap field =
     (case columnMap field of None \<Rightarrow> field | Some col \<Rightarrow> col)"

text \<open>The assignment fragment of the field at position \<open>i\<close>, counted from 0: its
  placeholder is \<open>i + 1\<close>.\<close>

definition spec_fragment :: "string \<Rightarrow> nat \<Rightarrow> string" where
  "spec_fragment col i = [CHR 0x22] @ col @ [CHR 0x22] @ ''=$'' @ string_of_nat (i + 1)"

definition fragments_of :: "(string \<Rightarrow> string) \<Rightarrow> string list \<Rightarrow> string list" where
  "fragments_of column ks = map (\<lambda>i. spec_fragment (column (ks ! i)) i) [0..<length ks]"

definition spec_buildPartialUpdate ::
  "(string \<times> 'v) list \<Rightarrow> (string \<rightharpoonup> string) \<Rightarrow> error + 'v sql_update" where
  "spec_buildPartialUpdate flds columnMap =
     (if flds = [] then Inl (BadRequestError ''No data'')
      else Inr \<lparr>setCols = join (fragments_of (spec_physical_column columnMap) (map fst flds)) '', '',
                values = map snd flds\<rparr>)"

text \<open>The column map \<^verbatim>\<open>Job.update\<close> passes: \<^verbatim>\<open>{ companyHandle: "company_handle" }\<close>.\<close>

definition Job_update_jsToSql :: "string \<rightharpoonup> string" where
  "Job_update_jsToSql = Map.empty(''companyHandle'' \<mapsto> ''company_handle'')"

subsection \<open>middleware/auth.js\<close>

text \<open>
  The payload of a token, which \<^verbatim>\<open>authenticateJWT\<close> stores in \<^verbatim>\<open>res.locals.user\<close>: an
  object with the properties \<^verbatim>\<open>username\<close>, \<^verbatim>\<open>isAdmin\<close> and \<^verbatim>\<open>iat\<close>, each of which may be
  missing (the tests pass \<^verbatim>\<open>{ username: "test" }\<close> and \<^verbatim>\<open>{}\<close>).
\<close>

record identity =
  username :: "string option"
  isAdmin :: "bool option"
  iat :: "int option"

text \<open>\<^verbatim>\<open>res.locals\<close>: the property \<^verbatim>\<open>user\<close> is absent until a token has been verified.\<close>

record locals =
  user :: "identity option"

text \<open>
  The request: \<^verbatim>\<open>req.headers\<close> may be absent (the tests pass \<^verbatim>\<open>{}\<close>);
  \<^verbatim>\<open>req.params.username\<close> is the path parameter of the route, a string.
\<close>

record request =
  headers :: "(string \<rightharpoonup> string) option"
  params_username :: string

text \<open>\<^verbatim>\<open>req.headers && req.headers.authorization\<close>.\<close>

definition authHeader :: "request \<Rightarrow> string option" where
  "authHeader req = (case headers req of None \<Rightarrow> None | Some h \<Rightarrow> h ''authorization'')"

text \<open>\<^verbatim>\<open>authHeader.replace(/^[Bb]earer /, "")\<close>.\<close>

definition replace_bearer :: "string \<Rightarrow> string" where
  "replace_bearer h =
     (if startsWith h ''Bearer '' \<or> startsWith h ''bearer '' then drop 7 h else h)"

text \<open>
  The body of the \<^verbatim>\<open>try\<close> block of \<^verbatim>\<open>authenticateJWT\<close>. The library call
  \<^verbatim>\<open>jwt.verify(token, SECRET_KEY)\<close> is the parameter \<open>verify\<close>: it returns the payload
  or throws.
\<close>

definition authenticateJWT_try ::
  "(string \<Rightarrow> error + identity) \<Rightarrow> request \<Rightarrow> locals \<Rightarrow> error + locals" where
  "authenticateJWT_try verify req res_locals =
     (if truthy_string (authHeader req) then
        (let token = trim (replace_bearer (the (authHeader req))) in
         case verify token of
           Inl err \<Rightarrow> Inl err
         | Inr payload \<Rightarrow> Inr (res_locals\<lparr>user := Some payload\<rparr>))
      else Inr res_locals)"

text \<open>
  \<^verbatim>\<open>authenticateJWT\<close>: the new \<^verbatim>\<open>res.locals\<close> and the argument \<^verbatim>\<open>next\<close> is called with
  (\<^term>\<open>None\<close> for \<^verbatim>\<open>next()\<close>). The \<^verbatim>\<open>catch\<close> block calls \<^verbatim>\<open>next()\<close> too.
\<close>

definition authenticateJWT ::
  "(string \<Rightarrow> error + identity) \<Rightarrow> request \<Rightarrow> locals \<Rightarrow> locals \<times> error option" where
  "authenticateJWT verify req res_locals =
     (case authenticateJWT_try verify req res_locals of
        Inr res_locals' \<Rightarrow> (res_locals', None)
      | Inl err \<Rightarrow> (res_locals, None))"

text \<open>
  The gates. Each runs its \<^verbatim>\<open>try\<close> block and hands what was thrown to \<^verbatim>\<open>next\<close>:
  \<^term>\<open>Inr ()\<close> is \<^verbatim>\<open>next()\<close>, \<^term>\<open>Inl err\<close> is \<^verbatim>\<open>next(err)\<close>. Reading a property of
  \<^verbatim>\<open>res.locals.user\<close> when it is \<^verbatim>\<open>undefined\<close> throws a \<^verbatim>\<open>TypeError\<close>.
\<close>

definition ensureLoggedIn :: "request \<Rightarrow> locals \<Rightarrow> error + unit" where
  "ensureLoggedIn req res_locals =
     (if \<not> truthy_object (user res_locals) then Inl UnauthorizedError else Inr ())"

definition ensureAdmin :: "request \<Rightarrow> locals \<Rightarrow> error + unit" where
  "ensureAdmin req res_locals =
     (case user res_locals of
        None \<Rightarrow> Inl TypeError
      | Some u \<Rightarrow> if \<not> truthy_boolean (isAdmin u) then Inl UnauthorizedError else Inr ())"

definition ensureAdminOrUser :: "request \<Rightarrow> locals \<Rightarrow> error + unit" where
  "ensureAdminOrUser req res_locals =
     (let owner = params_username req; userObj = user res_locals in
      case userObj of
        None \<Rightarrow> Inl TypeError
      | Some u \<Rightarrow>
          if \<not> truthy_boolean (isAdmin u) \<and> Some owner \<noteq> username u
          then Inl UnauthorizedError else Inr ())"

text \<open>
  A route lists its gates before its handler, as in
  \<^verbatim>\<open>router.post("/", ensureLoggedIn, ensureAdmin, ...)\<close>: Express runs them in order and
  stops at the first one that calls \<^verbatim>\<open>next\<close> with an error.
\<close>

datatype gate = EnsureLoggedIn | EnsureAdmin | EnsureAdminOrUser

fun run_gate :: "gate \<Rightarrow> request \<Rightarrow> locals \<Rightarrow> error + unit" where
  "run_gate EnsureLoggedIn = ensureLoggedIn"
| "run_gate EnsureAdmin = ensureAdmin"
| "run_gate EnsureAdminOrUser = ensureAdminOrUser"

fun run_chain :: "gate list \<Rightarrow> request \<Rightarrow> locals \<Rightarrow> error + unit" where
  "run_chain [] req res_locals = Inr ()"
| "run_chain (g # gs) req res_locals =
     (case run_gate g req res_locals of
        Inl err \<Rightarrow> Inl err
      | Inr _ \<Rightarrow> run_chain gs req res_locals)"

text \<open>
  The verifier of \<^verbatim>\<open>auth.test.js\<close>: \<^verbatim>\<open>testJwt\<close>, signed with the secret, verifies to its
  payload; every other text is rejected. The token stands for its own text here.
\<close>

definition testJwt_payload :: identity where
  "testJwt_payload = \<lparr>username = Some ''test'', isAdmin = Some False, iat = Some 1\<rparr>"

definition test_verify :: "string \<Rightarrow> error + identity" where
  "test_verify token = (if token = ''testJwt'' then Inr testJwt_payload else Inl JsonWebTokenError)"

definition request_with_authorization :: "string \<Rightarrow> request" where
  "request_with_authorization h =
     \<lparr>headers = Some (Map.empty(''authorization'' \<mapsto> h)), params_username = ''user1''\<rparr>"

subsection \<open>models/job.js\<close>

text \<open>
  A row of \<^verbatim>\<open>Job.findAll()\<close>. The database hands \<^verbatim>\<open>equity\<close> over as decimal text;
  \<open>job_equity\<close> is the number \<^verbatim>\<open>Number(job.equity)\<close> makes of it.
\<close>

record job =
  job_id :: int
  job_title :: string
  job_salary :: int
  job_equity :: rat
  job_companyHandle :: string

text \<open>The options object, after the route has coerced and validated it: a string, an
  integer and a boolean, each of which may be absent.\<close>

record job_options =
  title :: "string option"
  minSalary :: "int option"
  hasEquity :: "bool option"

text \<open>\<^verbatim>\<open>Job.filterJobs(options)\<close>; \<open>data\<close> is what \<^verbatim>\<open>await Job.findAll()\<close> returned.\<close>

definition filterJobs :: "job list \<Rightarrow> job_options \<Rightarrow> error + job list" where
  "filterJobs data options =
     (let filter1 =
            (if truthy_string (title options)
             then filter (\<lambda>job. includes_str (toLowerCase (job_title job))
                                          (toLowerCase (the (title options)))) data
             else data);
          filter2 =
            (if truthy_number (minSalary options)
             then filter (\<lambda>job. job_salary job \<ge> the (minSalary options)) filter1
             else filter1);
          results =
            (if truthy_boolean (hasEquity options)
             then filter (\<lambda>job. job_equity job > 0) filter2
             else filter2)
      in if length results = 0
         then Inl (NotFoundError ''No jobs match the desired criteria'')
         else Inr results)"

paragraph \<open>The predicates as the specification words them\<close>

text \<open>Two characters are the same up to case when they are equal or one is the capital
  of the other.\<close>

definition same_letter :: "char \<Rightarrow> char \<Rightarrow> bool" where
  "same_letter a b =
     (a = b
      \<or> (a, b) \<in> set (zip ''ABCDEFGHIJKLMNOPQRSTUVWXYZ'' ''abcdefghijklmnopqrstuvwxyz'')
      \<or> (b, a) \<in> set (zip ''ABCDEFGHIJKLMNOPQRSTUVWXYZ'' ''abcdefghijklmnopqrstuvwxyz''))"

text \<open>\<open>t\<close> occurs in \<open>s\<close> at some position, up to case.\<close>

definition ci_contains :: "string \<Rightarrow> string \<Rightarrow> bool" where
  "ci_contains s t =
     list_ex (\<lambda>i. list_all2 same_letter (take (length t) (drop i s)) t) [0..<Suc (length s)]"


text \<open>The same conjunction with a salary bound of 0 narrowing nothing.\<close>

definition keeps :: "job_options \<Rightarrow> job \<Rightarrow> bool" where
  "keeps options j =
     ((case title options of None \<Rightarrow> True | Some t \<Rightarrow> ci_contains (job_title j) t)
      \<and> (case minSalary options of None \<Rightarrow> True | Some n \<Rightarrow> n = 0 \<or> job_salary j \<ge> n)
      \<and> (case hasEquity options of None \<Rightarrow> True | Some b \<Rightarrow> \<not> b \<or> job_equity j > 0))"

text \<open>The fixture of \<^verbatim>\<open>job.test.js\<close>.\<close>

definition j1 :: job where
  "j1 = \<lparr>job_id = 1, job_title = ''j1'', job_salary = 50000, job_equity = 1 / 2,
         job_companyHandle = ''c1''\<rparr>"

definition j2 :: job where
  "j2 = \<lparr>job_id = 2, job_title = ''j2'', job_salary = 100000, job_equity = 9 / 10,
         job_companyHandle = ''c2''\<rparr>"

definition j3 :: job where
  "j3 = \<lparr>job_id = 3, job_title = ''j3'', job_salary = 150000, job_equity = 0,
         job_companyHandle = ''c3''\<rparr>"

section \<open>Properties\<close>

subsection \<open>The update builder\<close>

text \<open>The array \<^verbatim>\<open>cols\<close> holds one fragment per key, numbered from the start index.\<close>

lemma cols_from_length: "length (cols_from m idx ks) = length ks"
  by (induction ks arbitrary: idx) auto

lemma cols_from_nth:
  "i < length ks \<Longrightarrow>
     cols_from m idx ks ! i = spec_fragment (js_or (js_get m (ks ! i)) (ks ! i)) (idx + i)"
proof (induction ks arbitrary: idx i)
  case Nil
  then show ?case by simp
next
  case (Cons k ks)
  show ?case
  proof (cases i)
    case 0
    then show ?thesis by (simp add: spec_fragment_def)
  next
    case (Suc n)
    with Cons.prems have "n < length ks" by simp
    from Cons.IH [OF this, of "idx + 1"] Suc show ?thesis by simp
  qed
qed

text \<open>
  Where the column map has a non-empty entry for a field, or has none and the field is
  not the name of an inherited property, the code takes the column the specification
  describes; on such fields the whole result is the one the specification describes.
\<close>

lemma column_follows_spec:
  "(case m k of Some c \<Rightarrow> c \<noteq> [] | None \<Rightarrow> map_of Object_prototype k = None) \<Longrightarrow>
     js_or (js_get m k) k = spec_physical_column m k"
  by (simp add: js_or_def js_get_def spec_physical_column_def split: option.splits)

lemma sqlForPartialUpdate_follows_spec:
  assumes "\<forall>k \<in> set (map fst flds).
             (case m k of Some c \<Rightarrow> c \<noteq> [] | None \<Rightarrow> map_of Object_prototype k = None)"
  shows "sqlForPartialUpdate flds m = spec_buildPartialUpdate flds m"
proof -
  have "cols_from m 0 (map fst flds) = fragments_of (spec_physical_column m) (map fst flds)"
  proof (rule nth_equalityI)
    show "length (cols_from m 0 (map fst flds))
            = length (fragments_of (spec_physical_column m) (map fst flds))"
      by (simp add: cols_from_length fragments_of_def)
  next
    fix i assume "i < length (cols_from m 0 (map fst flds))"
    then have i: "i < length (map fst flds)" by (simp add: cols_from_length)
    then have "map fst flds ! i \<in> set (map fst flds)" by (rule nth_mem)
    with assms have "js_or (js_get m (map fst flds ! i)) (map fst flds ! i)
                       = spec_physical_column m (map fst flds ! i)"
      by (intro column_follows_spec) blast
    with i show "cols_from m 0 (map fst flds) ! i
                   = fragments_of (spec_physical_column m) (map fst flds) ! i"
      by (simp add: cols_from_nth fragments_of_def del: length_map)
  qed
  then show ?thesis
    by (simp add: sqlForPartialUpdate_def spec_buildPartialUpdate_def)
qed

text \<open>The example of the source's comment and test: \<^verbatim>\<open>{firstName: 'Aliya', age: 8}\<close> with
  the column map \<^verbatim>\<open>{firstName: 'first_name'}\<close>, and the empty object.\<close>

lemma sqlForPartialUpdate_example:
  "sqlForPartialUpdate [(''firstName'', Str ''Aliya''), (''age'', Num 8)]
         (Map.empty(''firstName'' \<mapsto> ''first_name''))
       = Inr \<lparr>setCols = [CHR 0x22] @ ''first_name'' @ [CHR 0x22] @ ''=$1, ''
                          @ [CHR 0x22] @ ''age'' @ [CHR 0x22] @ ''=$2'',
              values = [Str ''Aliya'', Num 8]\<rparr>"
  by (simp add: sqlForPartialUpdate_def js_or_def js_get_def Object_prototype_def)

lemma sqlForPartialUpdate_no_data:
  "sqlForPartialUpdate [] m = Inl (BadRequestError ''No data'')"
  by (simp add: sqlForPartialUpdate_def)

text \<open>
  C1 at the input \<^verbatim>\<open>{constructor: 1}\<close> with the column map of \<^verbatim>\<open>Job.update\<close>. The map has
  no entry for \<^verbatim>\<open>constructor\<close>, so the specification, like the comment in the source
  ("it will stick with the key name from the first object"), asks for the column
  \<^verbatim>\<open>"constructor"\<close>. The code reads the property every object inherits and puts the text of
  that function between the quotes.
\<close>

theorem inherited_property_as_column:
  "sqlForPartialUpdate [(''constructor'', Num 1)] Job_update_jsToSql
     = Inr \<lparr>setCols = [CHR 0x22] @ ''function Object() { [native code] }'' @ [CHR 0x22] @ ''=$1'',
            values = [Num 1]\<rparr>
   \<and> spec_buildPartialUpdate [(''constructor'', Num 1)] Job_update_jsToSql
     = Inr \<lparr>setCols = [CHR 0x22] @ ''constructor'' @ [CHR 0x22] @ ''=$1'', values = [Num 1]\<rparr>"
  by (simp add: sqlForPartialUpdate_def spec_buildPartialUpdate_def js_or_def js_get_def
      Object_prototype_def Job_update_jsToSql_def fragments_of_def spec_fragment_def
      spec_physical_column_def)

text \<open>
  C2. The set clause never contains a value of the caller: two non-empty field lists with
  the same keys in the same order, whatever their values (and of whatever type), give the
  same \<^verbatim>\<open>setCols\<close> under one column map; the values are returned in \<^verbatim>\<open>values\<close> only.
\<close>

theorem setCols_ignores_values:
  fixes flds1 :: "(string \<times> 'a) list" and flds2 :: "(string \<times> 'b) list"
  assumes "map fst flds1 = map fst flds2" and "flds1 \<noteq> []"
  shows "\<exists>r1 r2. sqlForPartialUpdate flds1 m = Inr r1 \<and> sqlForPartialUpdate flds2 m = Inr r2
           \<and> setCols r1 = setCols r2
           \<and> values r1 = map snd flds1 \<and> values r2 = map snd flds2"
proof -
  from assms have "flds2 \<noteq> []" by auto
  with assms show ?thesis
    by (simp add: sqlForPartialUpdate_def)
qed

theorem setCols_ignores_values_witness:
  "map fst [(''title'', Str ''clerk'')] = map fst [(''title'', Str ''x, salary=0'')]
   \<and> [(''title'', Str ''clerk'')] \<noteq> []
   \<and> (\<exists>r1 r2. sqlForPartialUpdate [(''title'', Str ''clerk'')] Map.empty = Inr r1
         \<and> sqlForPartialUpdate [(''title'', Str ''x, salary=0'')] Map.empty = Inr r2
         \<and> setCols r1 = setCols r2
         \<and> values r1 = map snd [(''title'', Str ''clerk'')]
         \<and> values r2 = map snd [(''title'', Str ''x, salary=0'')])"
  using setCols_ignores_values
          [of "[(''title'', Str ''clerk'')]" "[(''title'', Str ''x, salary=0'')]" Map.empty]
  by simp

subsection \<open>The gates\<close>

text \<open>
  With \<^verbatim>\<open>res.locals.user\<close> populated, \<^verbatim>\<open>ensureAdmin\<close> passes if and only if \<^verbatim>\<open>isAdmin\<close> is
  \<^verbatim>\<open>true\<close>, and fails with \<^verbatim>\<open>UnauthorizedError\<close> when \<^verbatim>\<open>isAdmin\<close> is \<^verbatim>\<open>false\<close> or missing.
\<close>

lemma ensureAdmin_populated:
  "user l = Some u \<Longrightarrow>
     ensureAdmin req l = (if isAdmin u = Some True then Inr () else Inl UnauthorizedError)"
  by (auto simp: ensureAdmin_def truthy_boolean_def split: option.splits)

text \<open>
  With \<^verbatim>\<open>res.locals.user\<close> populated, \<^verbatim>\<open>ensureAdminOrUser\<close> passes if and only if \<^verbatim>\<open>isAdmin\<close>
  is \<^verbatim>\<open>true\<close> or \<^verbatim>\<open>username\<close> equals the path's username, and fails with
  \<^verbatim>\<open>UnauthorizedError\<close> otherwise, also when \<^verbatim>\<open>username\<close> is missing.
\<close>

lemma ensureAdminOrUser_populated:
  "user l = Some u \<Longrightarrow>
     ensureAdminOrUser req l =
       (if isAdmin u = Some True \<or> username u = Some (params_username req)
        then Inr () else Inl UnauthorizedError)"
  by (auto simp: ensureAdminOrUser_def truthy_boolean_def split: option.splits)

text \<open>No gate passes a request without identity.\<close>

lemma gate_rejects_anonymous: "user l = None \<Longrightarrow> run_gate g req l \<noteq> Inr ()"
  by (cases g) (simp_all add: ensureLoggedIn_def ensureAdmin_def ensureAdminOrUser_def
      truthy_object_def)

text \<open>
  C3 at a request without identity (\<^verbatim>\<open>res.locals\<close> is \<^verbatim>\<open>{}\<close>, as in the test "unauth if no
  login"). The docstring of \<^verbatim>\<open>ensureAdmin\<close> says "If not, raises Unauthorized", and
  \<^verbatim>\<open>ensureLoggedIn\<close> beside it tests \<^verbatim>\<open>res.locals.user\<close> first; \<^verbatim>\<open>ensureAdmin\<close> reads
  \<^verbatim>\<open>res.locals.user.isAdmin\<close> unguarded, so what \<^verbatim>\<open>next\<close> receives is the \<^verbatim>\<open>TypeError\<close> of
  that read and not an \<^verbatim>\<open>UnauthorizedError\<close>.
\<close>

theorem ensureAdmin_empty_slot:
  "ensureAdmin \<lparr>headers = None, params_username = ''user1''\<rparr> \<lparr>user = None\<rparr> = Inl TypeError
   \<and> ensureAdmin \<lparr>headers = None, params_username = ''user1''\<rparr> \<lparr>user = None\<rparr>
       \<noteq> Inl UnauthorizedError"
  by (simp add: ensureAdmin_def)

text \<open>
  C4 at a request without identity, for the path \<^verbatim>\<open>/users/user1\<close>. The docstring of
  \<^verbatim>\<open>ensureAdminOrUser\<close> says "If neither, raises Unauthorized"; the unguarded read of
  \<^verbatim>\<open>userObj.isAdmin\<close> throws, and \<^verbatim>\<open>next\<close> receives that \<^verbatim>\<open>TypeError\<close> and not an
  \<^verbatim>\<open>UnauthorizedError\<close>.
\<close>

theorem ensureAdminOrUser_empty_slot:
  "ensureAdminOrUser \<lparr>headers = None, params_username = ''user1''\<rparr> \<lparr>user = None\<rparr>
       = Inl TypeError
   \<and> ensureAdminOrUser \<lparr>headers = None, params_username = ''user1''\<rparr> \<lparr>user = None\<rparr>
       \<noteq> Inl UnauthorizedError"
  by (simp add: ensureAdminOrUser_def)

subsection \<open>Chains of gates\<close>

text \<open>
  A chain passes exactly when each of its gates passes; the gates change nothing, so this
  does not depend on their order.
\<close>

lemma run_chain_passes:
  "run_chain gs req l = Inr () \<longleftrightarrow> (\<forall>g \<in> set gs. run_gate g req l = Inr ())"
  by (induction gs) (auto split: sum.splits)

text \<open>
  With a user present a gate passes or fails with \<^verbatim>\<open>UnauthorizedError\<close>, and so does a
  chain.
\<close>

lemma run_gate_populated:
  "user l = Some u \<Longrightarrow> run_gate g req l = Inr () \<or> run_gate g req l = Inl UnauthorizedError"
  by (cases g)
     (auto simp: ensureLoggedIn_def ensureAdmin_def ensureAdminOrUser_def truthy_object_def)

lemma run_chain_populated:
  "user l = Some u \<Longrightarrow>
     run_chain gs req l =
       (if \<forall>g \<in> set gs. run_gate g req l = Inr () then Inr () else Inl UnauthorizedError)"
proof (induction gs)
  case Nil
  then show ?case by simp
next
  case (Cons g gs)
  from run_gate_populated [OF Cons.prems, of g req] Cons.IH [OF Cons.prems]
  show ?case by (auto split: sum.splits)
qed

text \<open>
  Two chains made of the same gates pass or fail together, whatever the identity and the
  path parameter; with a user present they give the same outcome, failure kind included.
\<close>

lemma gate_order_populated:
  assumes "set gs = set hs"
  shows "(run_chain gs req l = Inr () \<longleftrightarrow> run_chain hs req l = Inr ())
         \<and> (user l \<noteq> None \<longrightarrow> run_chain gs req l = run_chain hs req l)"
proof (intro conjI impI)
  show "run_chain gs req l = Inr () \<longleftrightarrow> run_chain hs req l = Inr ()"
    using assms by (simp add: run_chain_passes)
next
  assume "user l \<noteq> None"
  then obtain u where "user l = Some u" by auto
  then show "run_chain gs req l = run_chain hs req l"
    using assms by (simp add: run_chain_populated)
qed

text \<open>
  C8 at a request without identity, for the chain of
  \<^verbatim>\<open>router.post("/", ensureLoggedIn, ensureAdmin, ...)\<close> and its reversal: the declared order
  fails with \<^verbatim>\<open>UnauthorizedError\<close>, the reversed order with the \<^verbatim>\<open>TypeError\<close> of the
  unguarded read in \<^verbatim>\<open>ensureAdmin\<close>. The two orders give different failure kinds.
\<close>

theorem reversed_chain_empty_slot:
  "run_chain [EnsureLoggedIn, EnsureAdmin] \<lparr>headers = None, params_username = ''user1''\<rparr>
       \<lparr>user = None\<rparr> = Inl UnauthorizedError
   \<and> run_chain [EnsureAdmin, EnsureLoggedIn] \<lparr>headers = None, params_username = ''user1''\<rparr>
       \<lparr>user = None\<rparr> = Inl TypeError"
  by (simp add: ensureLoggedIn_def ensureAdmin_def truthy_object_def)

subsection \<open>Authentication\<close>

text \<open>
  The two paths of \<^verbatim>\<open>authenticateJWT\<close>: no header (or an empty one), and a header whose
  token is handed to \<^verbatim>\<open>jwt.verify\<close>.
\<close>

lemma authenticateJWT_no_token:
  "\<not> truthy_string (authHeader req) \<Longrightarrow> authenticateJWT verify req l = (l, None)"
  by (simp add: authenticateJWT_def authenticateJWT_try_def)

lemma authenticateJWT_token:
  "authHeader req = Some h \<Longrightarrow> h \<noteq> [] \<Longrightarrow>
     authenticateJWT verify req l =
       (case verify (trim (replace_bearer h)) of
          Inl err \<Rightarrow> (l, None)
        | Inr payload \<Rightarrow> (l\<lparr>user := Some payload\<rparr>, None))"
  by (simp add: authenticateJWT_def authenticateJWT_try_def truthy_string_def split: sum.splits)

lemma replace_bearer_Bearer: "replace_bearer (''Bearer '' @ tok) = tok"
  by (simp add: replace_bearer_def)

lemma replace_bearer_bearer: "replace_bearer (''bearer '' @ tok) = tok"
  by (simp add: replace_bearer_def)

lemma authHeader_request_with: "authHeader (request_with_authorization h) = Some h"
  by (simp add: authHeader_def request_with_authorization_def)

lemma trim_testJwt: "trim ''testJwt'' = ''testJwt''"
  by (simp add: trim_def is_whitespace_def)

text \<open>
  C5. \<^verbatim>\<open>authenticateJWT\<close> never fails the request: it always calls \<^verbatim>\<open>next\<close> without an
  error. Without an Authorization header \<^verbatim>\<open>res.locals\<close> is left as it was (empty, for a
  fresh request). With the header \<^verbatim>\<open>Bearer <token>\<close>, where the token has no surrounding
  white space and verifies, \<^verbatim>\<open>res.locals.user\<close> becomes the token's payload. When
  verification throws, \<^verbatim>\<open>res.locals\<close> is left as it was, which is what the absent header
  gives.
\<close>

theorem authenticateJWT_never_fails:
  "snd (authenticateJWT verify req l) = None
   \<and> (authHeader req = None \<longrightarrow> fst (authenticateJWT verify req l) = l)
   \<and> (\<forall>tok payload.
         authHeader req = Some (''Bearer '' @ tok) \<and> trim tok = tok \<and> verify tok = Inr payload
         \<longrightarrow> fst (authenticateJWT verify req l) = l\<lparr>user := Some payload\<rparr>)
   \<and> (\<forall>h err.
         authHeader req = Some h \<and> verify (trim (replace_bearer h)) = Inl err
         \<longrightarrow> fst (authenticateJWT verify req l) = l)"
proof (intro conjI allI impI)
  show "snd (authenticateJWT verify req l) = None"
    by (simp add: authenticateJWT_def split: sum.splits)
next
  assume "authHeader req = None"
  then show "fst (authenticateJWT verify req l) = l"
    by (simp add: authenticateJWT_no_token truthy_string_def)
next
  fix tok payload
  assume "authHeader req = Some (''Bearer '' @ tok) \<and> trim tok = tok \<and> verify tok = Inr payload"
  then have h: "authHeader req = Some (''Bearer '' @ tok)" and t: "trim tok = tok"
    and v: "verify tok = Inr payload"
    by blast+
  have ne: "''Bearer '' @ tok \<noteq> []" by simp
  have "authenticateJWT verify req l = (l\<lparr>user := Some payload\<rparr>, None)"
    unfolding authenticateJWT_token [OF h ne] replace_bearer_Bearer t v by simp
  then show "fst (authenticateJWT verify req l) = l\<lparr>user := Some payload\<rparr>"
    by simp
next
  fix h err
  assume a: "authHeader req = Some h \<and> verify (trim (replace_bearer h)) = Inl err"
  show "fst (authenticateJWT verify req l) = l"
  proof (cases "h = []")
    case True
    with a show ?thesis by (simp add: authenticateJWT_no_token truthy_string_def)
  next
    case False
    with a show ?thesis by (simp add: authenticateJWT_token)
  qed
qed

text \<open>
  The three tests of \<^verbatim>\<open>auth.test.js\<close>: no header, the header with \<^verbatim>\<open>testJwt\<close>, the header
  with a token the verifier rejects.
\<close>

theorem authenticateJWT_never_fails_witness:
  "authHeader \<lparr>headers = None, params_username = ''user1''\<rparr> = None
   \<and> authenticateJWT test_verify \<lparr>headers = None, params_username = ''user1''\<rparr> \<lparr>user = None\<rparr>
       = (\<lparr>user = None\<rparr>, None)
   \<and> authHeader (request_with_authorization ''Bearer testJwt'') = Some (''Bearer '' @ ''testJwt'')
   \<and> trim ''testJwt'' = ''testJwt''
   \<and> test_verify ''testJwt'' = Inr testJwt_payload
   \<and> authenticateJWT test_verify (request_with_authorization ''Bearer testJwt'') \<lparr>user = None\<rparr>
       = (\<lparr>user = Some testJwt_payload\<rparr>, None)
   \<and> authHeader (request_with_authorization ''Bearer badJwt'') = Some ''Bearer badJwt''
   \<and> test_verify (trim (replace_bearer ''Bearer badJwt'')) = Inl JsonWebTokenError
   \<and> authenticateJWT test_verify (request_with_authorization ''Bearer badJwt'') \<lparr>user = None\<rparr>
       = (\<lparr>user = None\<rparr>, None)"
proof -
  have h1: "authHeader \<lparr>headers = None, params_username = ''user1''\<rparr> = None"
    by (simp add: authHeader_def)
  have h2: "authHeader (request_with_authorization ''Bearer testJwt'') = Some (''Bearer '' @ ''testJwt'')"
    by (simp add: authHeader_request_with)
  have h3: "test_verify ''testJwt'' = Inr testJwt_payload"
    by (simp add: test_verify_def)
  have h4: "authHeader (request_with_authorization ''Bearer badJwt'') = Some ''Bearer badJwt''"
    by (simp add: authHeader_request_with)
  have h5: "test_verify (trim (replace_bearer ''Bearer badJwt'')) = Inl JsonWebTokenError"
    by (simp add: test_verify_def replace_bearer_def trim_def is_whitespace_def)
  show ?thesis
    using h1 h2 h3 h4 h5 trim_testJwt
      authenticateJWT_never_fails
        [of test_verify "\<lparr>headers = None, params_username = ''user1''\<rparr>" "\<lparr>user = None\<rparr>"]
      authenticateJWT_never_fails
        [of test_verify "request_with_authorization ''Bearer testJwt''" "\<lparr>user = None\<rparr>"]
      authenticateJWT_never_fails
        [of test_verify "request_with_authorization ''Bearer badJwt''" "\<lparr>user = None\<rparr>"]
    by (auto simp: prod_eq_iff)
qed

text \<open>\<^verbatim>\<open>startsWith\<close> is the prefix test.\<close>

lemma startsWith_iff: "startsWith s t \<longleftrightarrow> (\<exists>q. s = t @ q)"
  by (induction s t rule: startsWith.induct) auto

text \<open>A header that starts with neither form of the scheme word is left whole.\<close>

lemma replace_bearer_other:
  "\<not> (\<exists>rest. h = ''Bearer '' @ rest) \<Longrightarrow> \<not> (\<exists>rest. h = ''bearer '' @ rest) \<Longrightarrow>
     replace_bearer h = h"
  unfolding replace_bearer_def startsWith_iff by simp

text \<open>
  C9, as the code has it. The scheme word is accepted with its initial letter in either
  case, and in no other capitalization. The headers \<^verbatim>\<open>Bearer <token>\<close> and
  \<^verbatim>\<open>bearer <token>\<close> give the same result: \<^verbatim>\<open>res.locals.user\<close> becomes the payload when the
  trimmed token verifies, and \<^verbatim>\<open>res.locals\<close> is left as it was when it does not. A non-empty
  header that starts with neither \<^verbatim>\<open>Bearer \<close> nor \<^verbatim>\<open>bearer \<close>, such as \<^verbatim>\<open>BEARER <token>\<close>, is
  not stripped: its whole trimmed text is what is verified, and \<^verbatim>\<open>res.locals.user\<close> becomes
  the payload or \<^verbatim>\<open>res.locals\<close> is left as it was according to that verification.
\<close>

theorem bearer_initial_either_case:
  assumes "authHeader req1 = Some (''Bearer '' @ tok)"
    and "authHeader req2 = Some (''bearer '' @ tok)"
  shows "authenticateJWT verify req1 l = authenticateJWT verify req2 l
         \<and> authenticateJWT verify req1 l =
             (case verify (trim tok) of
                Inl err \<Rightarrow> (l, None)
              | Inr payload \<Rightarrow> (l\<lparr>user := Some payload\<rparr>, None))
         \<and> (\<forall>req3 h. authHeader req3 = Some h \<and> h \<noteq> []
                \<and> \<not> (\<exists>rest. h = ''Bearer '' @ rest) \<and> \<not> (\<exists>rest. h = ''bearer '' @ rest)
               \<longrightarrow> authenticateJWT verify req3 l =
                     (case verify (trim h) of
                        Inl err \<Rightarrow> (l, None)
                      | Inr payload \<Rightarrow> (l\<lparr>user := Some payload\<rparr>, None)))"
proof (intro conjI allI impI)
  have n1: "''Bearer '' @ tok \<noteq> []" and n2: "''bearer '' @ tok \<noteq> []" by simp_all
  show "authenticateJWT verify req1 l = authenticateJWT verify req2 l"
    unfolding authenticateJWT_token [OF assms(1) n1] authenticateJWT_token [OF assms(2) n2]
      replace_bearer_Bearer replace_bearer_bearer ..
  show "authenticateJWT verify req1 l =
          (case verify (trim tok) of
             Inl err \<Rightarrow> (l, None)
           | Inr payload \<Rightarrow> (l\<lparr>user := Some payload\<rparr>, None))"
    unfolding authenticateJWT_token [OF assms(1) n1] replace_bearer_Bearer ..
next
  fix req3 h
  assume a: "authHeader req3 = Some h \<and> h \<noteq> []
     \<and> \<not> (\<exists>rest. h = ''Bearer '' @ rest) \<and> \<not> (\<exists>rest. h = ''bearer '' @ rest)"
  then have h: "authHeader req3 = Some h" and ne: "h \<noteq> []"
    and o1: "\<not> (\<exists>rest. h = ''Bearer '' @ rest)" and o2: "\<not> (\<exists>rest. h = ''bearer '' @ rest)"
    by blast+
  show "authenticateJWT verify req3 l =
          (case verify (trim h) of
             Inl err \<Rightarrow> (l, None)
           | Inr payload \<Rightarrow> (l\<lparr>user := Some payload\<rparr>, None))"
    unfolding authenticateJWT_token [OF h ne] replace_bearer_other [OF o1 o2] ..
qed

text \<open>
  With the verifier of \<^verbatim>\<open>auth.test.js\<close>: \<^verbatim>\<open>Bearer testJwt\<close> and \<^verbatim>\<open>bearer testJwt\<close> both
  populate the identity; \<^verbatim>\<open>BEARER testJwt\<close> starts with neither form, its whole text is
  rejected, and the identity stays empty.
\<close>

theorem bearer_initial_either_case_witness:
  "authHeader (request_with_authorization (''Bearer '' @ ''testJwt'')) = Some (''Bearer '' @ ''testJwt'')
   \<and> authHeader (request_with_authorization (''bearer '' @ ''testJwt'')) = Some (''bearer '' @ ''testJwt'')
   \<and> test_verify (trim ''testJwt'') = Inr testJwt_payload
   \<and> authenticateJWT test_verify (request_with_authorization (''Bearer '' @ ''testJwt'')) \<lparr>user = None\<rparr>
       = authenticateJWT test_verify (request_with_authorization (''bearer '' @ ''testJwt'')) \<lparr>user = None\<rparr>
   \<and> authenticateJWT test_verify (request_with_authorization (''Bearer '' @ ''testJwt'')) \<lparr>user = None\<rparr>
       = (\<lparr>user = Some testJwt_payload\<rparr>, None)
   \<and> authHeader (request_with_authorization ''BEARER testJwt'') = Some ''BEARER testJwt''
   \<and> ''BEARER testJwt'' \<noteq> []
   \<and> \<not> (\<exists>rest. ''BEARER testJwt'' = ''Bearer '' @ rest)
   \<and> \<not> (\<exists>rest. ''BEARER testJwt'' = ''bearer '' @ rest)
   \<and> test_verify (trim ''BEARER testJwt'') = Inl JsonWebTokenError
   \<and> authenticateJWT test_verify (request_with_authorization ''BEARER testJwt'') \<lparr>user = None\<rparr>
       = (\<lparr>user = None\<rparr>, None)"
proof -
  have h1: "authHeader (request_with_authorization (''Bearer '' @ ''testJwt'')) = Some (''Bearer '' @ ''testJwt'')"
    and h2: "authHeader (request_with_authorization (''bearer '' @ ''testJwt'')) = Some (''bearer '' @ ''testJwt'')"
    and h3: "authHeader (request_with_authorization ''BEARER testJwt'') = Some ''BEARER testJwt''"
    by (rule authHeader_request_with)+
  have v: "test_verify (trim ''testJwt'') = Inr testJwt_payload"
    by (simp add: trim_testJwt test_verify_def)
  have w: "test_verify (trim ''BEARER testJwt'') = Inl JsonWebTokenError"
    by (simp add: test_verify_def trim_def is_whitespace_def)
  have ne: "''BEARER testJwt'' \<noteq> []" by simp
  have o1: "\<not> (\<exists>rest. ''BEARER testJwt'' = ''Bearer '' @ rest)" by simp
  have o2: "\<not> (\<exists>rest. ''BEARER testJwt'' = ''bearer '' @ rest)" by simp
  note t = bearer_initial_either_case [OF h1 h2, of test_verify "\<lparr>user = None\<rparr>"]
  from t have a: "authenticateJWT test_verify (request_with_authorization (''Bearer '' @ ''testJwt'')) \<lparr>user = None\<rparr>
       = authenticateJWT test_verify (request_with_authorization (''bearer '' @ ''testJwt'')) \<lparr>user = None\<rparr>"
    by blast
  from t have "authenticateJWT test_verify (request_with_authorization (''Bearer '' @ ''testJwt'')) \<lparr>user = None\<rparr>
       = (case test_verify (trim ''testJwt'') of
            Inl err \<Rightarrow> (\<lparr>user = None\<rparr>, None)
          | Inr payload \<Rightarrow> (\<lparr>user = None\<rparr>\<lparr>user := Some payload\<rparr>, None))"
    by blast
  then have b: "authenticateJWT test_verify (request_with_authorization (''Bearer '' @ ''testJwt'')) \<lparr>user = None\<rparr>
       = (\<lparr>user = Some testJwt_payload\<rparr>, None)"
    unfolding v by simp
  from t h3 ne o1 o2
  have "authenticateJWT test_verify (request_with_authorization ''BEARER testJwt'') \<lparr>user = None\<rparr>
       = (case test_verify (trim ''BEARER testJwt'') of
            Inl err \<Rightarrow> (\<lparr>user = None\<rparr>, None)
          | Inr payload \<Rightarrow> (\<lparr>user = None\<rparr>\<lparr>user := Some payload\<rparr>, None))"
    by blast
  then have c: "authenticateJWT test_verify (request_with_authorization ''BEARER testJwt'') \<lparr>user = None\<rparr>
       = (\<lparr>user = None\<rparr>, None)"
    unfolding w by simp
  from h1 h2 v a b h3 ne o1 o2 w c show ?thesis by blast
qed

text \<open>
  C9 as the specification states it fails for the scheme in capitals: the token that
  populates the identity after \<^verbatim>\<open>Bearer\<close> leaves it empty after \<^verbatim>\<open>BEARER\<close>.
\<close>

theorem uppercase_scheme_counterexample:
  "test_verify ''testJwt'' = Inr testJwt_payload
   \<and> fst (authenticateJWT test_verify (request_with_authorization ''Bearer testJwt'') \<lparr>user = None\<rparr>)
       = \<lparr>user = Some testJwt_payload\<rparr>
   \<and> fst (authenticateJWT test_verify (request_with_authorization ''BEARER testJwt'') \<lparr>user = None\<rparr>)
       = \<lparr>user = None\<rparr>"
  by (simp add: authenticateJWT_def authenticateJWT_try_def authHeader_request_with
      truthy_string_def replace_bearer_def trim_def is_whitespace_def test_verify_def)

subsection \<open>The job filter\<close>

text \<open>\<^verbatim>\<open>includes\<close> is the substring test.\<close>

lemma includes_str_iff: "includes_str s t \<longleftrightarrow> (\<exists>p q. s = p @ t @ q)"
proof (induction s)
  case Nil
  then show ?case by simp
next
  case (Cons c s)
  have "(\<exists>p q. c # s = p @ t @ q) \<longleftrightarrow> (\<exists>q. c # s = t @ q) \<or> (\<exists>p q. s = p @ t @ q)"
    by (auto simp: Cons_eq_append_conv)
  with Cons show ?case by (simp add: startsWith_iff)
qed

lemma ci_contains_iff:
  "ci_contains s t \<longleftrightarrow> (\<exists>p u q. s = p @ u @ q \<and> list_all2 same_letter u t)"
proof
  assume "ci_contains s t"
  then obtain i where "list_all2 same_letter (take (length t) (drop i s)) t"
    by (auto simp: ci_contains_def list_ex_iff)
  moreover have "s = take i s @ take (length t) (drop i s) @ drop (length t) (drop i s)"
    by (simp only: append_take_drop_id)
  ultimately show "\<exists>p u q. s = p @ u @ q \<and> list_all2 same_letter u t" by blast
next
  assume "\<exists>p u q. s = p @ u @ q \<and> list_all2 same_letter u t"
  then obtain p u q where s: "s = p @ u @ q" and u: "list_all2 same_letter u t" by blast
  from u have "length u = length t" by (rule list_all2_lengthD)
  with s u have "list_all2 same_letter (take (length t) (drop (length p) s)) t" by simp
  moreover from s have "length p \<in> set [0..<Suc (length s)]" by simp
  ultimately show "ci_contains s t"
    unfolding ci_contains_def list_ex_iff by blast
qed

text \<open>
  Two characters are the same up to case exactly when \<^verbatim>\<open>toLowerCase\<close> maps them to the
  same character. This holds for any table of pairs whose two columns are disjoint and
  without repetition.
\<close>

lemma fold_table_eq_iff:
  fixes tbl :: "('a \<times> 'a) list"
  assumes d1: "distinct (map fst tbl)" and d2: "distinct (map snd tbl)"
    and dj: "set (map fst tbl) \<inter> set (map snd tbl) = {}"
  shows "(a = b \<or> (a, b) \<in> set tbl \<or> (b, a) \<in> set tbl)
         \<longleftrightarrow> (case map_of tbl a of Some l \<Rightarrow> l | None \<Rightarrow> a)
              = (case map_of tbl b of Some l \<Rightarrow> l | None \<Rightarrow> b)"
proof -
  have inj: "\<And>x y l. (x, l) \<in> set tbl \<Longrightarrow> (y, l) \<in> set tbl \<Longrightarrow> x = y"
    using d2 by (fastforce simp: distinct_map inj_on_def)
  have nodom: "\<And>x l. (x, l) \<in> set tbl \<Longrightarrow> map_of tbl l = None"
  proof -
    fix x l assume "(x, l) \<in> set tbl"
    then have "l \<in> set (map snd tbl)" by force
    with dj have "l \<notin> set (map fst tbl)" by blast
    then show "map_of tbl l = None" by (simp add: map_of_eq_None_iff)
  qed
  have some: "\<And>x l. map_of tbl x = Some l \<longleftrightarrow> (x, l) \<in> set tbl"
    using d1 by simp
  show ?thesis
  proof (cases "map_of tbl a")
    case None
    note na = this
    show ?thesis
    proof (cases "map_of tbl b")
      case None
      with na show ?thesis using some [of a b] some [of b a] by auto
    next
      case (Some lb)
      with na show ?thesis using some [of b a] some [of b lb] some [of a b] nodom [of a b]
        by auto
    qed
  next
    case (Some la)
    note sa = this
    show ?thesis
    proof (cases "map_of tbl b")
      case None
      with sa show ?thesis using some [of a b] some [of a la] some [of b a] nodom [of b a]
        by auto
    next
      case (Some lb)
      with sa show ?thesis
        using some [of a la] some [of b lb] inj [of a la b] nodom [of a b] nodom [of b a]
        by auto
    qed
  qed
qed

lemma letter_table:
  "distinct (map fst (zip ''ABCDEFGHIJKLMNOPQRSTUVWXYZ'' ''abcdefghijklmnopqrstuvwxyz''))"
  "distinct (map snd (zip ''ABCDEFGHIJKLMNOPQRSTUVWXYZ'' ''abcdefghijklmnopqrstuvwxyz''))"
  "set (map fst (zip ''ABCDEFGHIJKLMNOPQRSTUVWXYZ'' ''abcdefghijklmnopqrstuvwxyz''))
     \<inter> set (map snd (zip ''ABCDEFGHIJKLMNOPQRSTUVWXYZ'' ''abcdefghijklmnopqrstuvwxyz'')) = {}"
  by simp_all

lemma same_letter_iff: "same_letter a b \<longleftrightarrow> toLowerCase_char a = toLowerCase_char b"
  unfolding same_letter_def toLowerCase_char_def
  by (rule fold_table_eq_iff [OF letter_table])

lemma list_all2_same_letter: "list_all2 same_letter u t \<longleftrightarrow> toLowerCase u = toLowerCase t"
proof (induction u arbitrary: t)
  case Nil
  then show ?case by (auto simp: toLowerCase_def)
next
  case (Cons a u)
  then show ?case by (cases t) (auto simp: toLowerCase_def same_letter_iff)
qed

text \<open>
  The test of the source, \<^verbatim>\<open>job.title.toLowerCase().includes(title.toLowerCase())\<close>, is
  containment up to case.
\<close>

lemma includes_lower_ci:
  "includes_str (toLowerCase s) (toLowerCase t) \<longleftrightarrow> ci_contains s t"
proof
  assume "includes_str (toLowerCase s) (toLowerCase t)"
  then obtain p q where "toLowerCase s = p @ toLowerCase t @ q"
    unfolding includes_str_iff by blast
  then have "map toLowerCase_char s = p @ (toLowerCase t @ q)"
    by (simp add: toLowerCase_def)
  then obtain s1 s2 where s: "s = s1 @ s2" and "toLowerCase t @ q = map toLowerCase_char s2"
    unfolding map_eq_append_conv by blast
  then have "map toLowerCase_char s2 = toLowerCase t @ q" by simp
  then obtain u s3 where "s2 = u @ s3" and "toLowerCase t = map toLowerCase_char u"
    unfolding map_eq_append_conv by blast
  with s have "s = s1 @ u @ s3 \<and> list_all2 same_letter u t"
    by (simp add: list_all2_same_letter toLowerCase_def)
  then show "ci_contains s t"
    unfolding ci_contains_iff by blast
next
  assume "ci_contains s t"
  then obtain p u q where "s = p @ u @ q" and "toLowerCase u = toLowerCase t"
    by (auto simp: ci_contains_iff list_all2_same_letter)
  then have "toLowerCase s = toLowerCase p @ toLowerCase t @ toLowerCase q"
    by (simp add: toLowerCase_def)
  then show "includes_str (toLowerCase s) (toLowerCase t)"
    unfolding includes_str_iff by blast
qed

lemma ci_contains_empty: "ci_contains s []"
  unfolding ci_contains_iff by (rule exI [of _ "[]"], rule exI [of _ "[]"]) simp

text \<open>
  Each of the three steps of \<^verbatim>\<open>filterJobs\<close> is a filter by one predicate.
\<close>

lemma filter_title:
  "(if truthy_string (title opts)
    then filter (\<lambda>job. includes_str (toLowerCase (job_title job))
                                     (toLowerCase (the (title opts)))) data
    else data)
   = filter (\<lambda>j. case title opts of None \<Rightarrow> True | Some t \<Rightarrow> ci_contains (job_title j) t) data"
  by (cases "title opts") (auto simp: truthy_string_def includes_lower_ci ci_contains_empty)

lemma filter_minSalary:
  "(if truthy_number (minSalary opts)
    then filter (\<lambda>job. job_salary job \<ge> the (minSalary opts)) xs
    else xs)
   = filter (\<lambda>j. case minSalary opts of None \<Rightarrow> True | Some n \<Rightarrow> n = 0 \<or> job_salary j \<ge> n) xs"
  by (cases "minSalary opts") (auto simp: truthy_number_def)

lemma filter_hasEquity:
  "(if truthy_boolean (hasEquity opts)
    then filter (\<lambda>job. job_equity job > 0) xs
    else xs)
   = filter (\<lambda>j. case hasEquity opts of None \<Rightarrow> True | Some b \<Rightarrow> \<not> b \<or> job_equity j > 0) xs"
  by (cases "hasEquity opts") (auto simp: truthy_boolean_def)

lemma filterJobs_keeps:
  "filterJobs data opts =
     (if filter (keeps opts) data = []
      then Inl (NotFoundError ''No jobs match the desired criteria'')
      else Inr (filter (keeps opts) data))"
proof -
  have "keeps opts = (\<lambda>j. ((case title opts of None \<Rightarrow> True | Some t \<Rightarrow> ci_contains (job_title j) t)
      \<and> (case minSalary opts of None \<Rightarrow> True | Some n \<Rightarrow> n = 0 \<or> job_salary j \<ge> n))
      \<and> (case hasEquity opts of None \<Rightarrow> True | Some b \<Rightarrow> \<not> b \<or> job_equity j > 0))"
    by (rule ext) (simp add: keeps_def)
  then show ?thesis
    unfolding filterJobs_def Let_def filter_title filter_minSalary filter_hasEquity filter_filter
    by simp
qed

lemma keeps_fixture:
  "filter (keeps \<lparr>title = Some ''J'', minSalary = Some 100000, hasEquity = Some True\<rparr>) [j1, j2, j3]
     = [j2]"
  by (simp add: keeps_def ci_contains_def same_letter_def j1_def j2_def j3_def upt_rec)






text \<open>
  C7. \<^verbatim>\<open>filterJobs\<close> throws \<^verbatim>\<open>NotFoundError\<close> if and only if no record satisfies the
  predicates; when a record does, it returns the non-empty list of the records that do;
  and it throws nothing else.
\<close>

theorem filterJobs_NotFound_iff:
  "(filterJobs data opts = Inl (NotFoundError ''No jobs match the desired criteria'')
      \<longleftrightarrow> \<not> (\<exists>j \<in> set data. keeps opts j))
   \<and> ((\<exists>j \<in> set data. keeps opts j)
        \<longrightarrow> (\<exists>r. filterJobs data opts = Inr r \<and> r \<noteq> [] \<and> r = filter (keeps opts) data))
   \<and> (\<forall>e. filterJobs data opts = Inl e
        \<longrightarrow> e = NotFoundError ''No jobs match the desired criteria'')"
  by (auto simp: filterJobs_keeps filter_empty_conv)

text \<open>
  On the fixture: the options of the test "throws an error if there are no jobs after
  filtering" keep nothing; the options of the previous witness keep a record.
\<close>

theorem filterJobs_NotFound_iff_witness:
  "filterJobs [j1, j2, j3] \<lparr>title = Some ''f1'', minSalary = Some 1000000, hasEquity = Some True\<rparr>
     = Inl (NotFoundError ''No jobs match the desired criteria'')
   \<and> \<not> (\<exists>j \<in> set [j1, j2, j3].
           keeps \<lparr>title = Some ''f1'', minSalary = Some 1000000, hasEquity = Some True\<rparr> j)
   \<and> (\<exists>j \<in> set [j1, j2, j3].
           keeps \<lparr>title = Some ''J'', minSalary = Some 100000, hasEquity = Some True\<rparr> j)
   \<and> (\<exists>r. filterJobs [j1, j2, j3]
              \<lparr>title = Some ''J'', minSalary = Some 100000, hasEquity = Some True\<rparr> = Inr r
          \<and> r \<noteq> [])"
proof -
  have a: "\<not> (\<exists>j \<in> set [j1, j2, j3].
           keeps \<lparr>title = Some ''f1'', minSalary = Some 1000000, hasEquity = Some True\<rparr> j)"
    by (simp add: keeps_def j1_def j2_def j3_def)
  have b: "\<exists>j \<in> set [j1, j2, j3].
           keeps \<lparr>title = Some ''J'', minSalary = Some 100000, hasEquity = Some True\<rparr> j"
    using keeps_fixture
    by (metis filter_empty_conv list.distinct(1))
  from a b
    filterJobs_NotFound_iff [of "[j1, j2, j3]"
      "\<lparr>title = Some ''f1'', minSalary = Some 1000000, hasEquity = Some True\<rparr>"]
    filterJobs_NotFound_iff [of "[j1, j2, j3]"
      "\<lparr>title = Some ''J'', minSalary = Some 100000, hasEquity = Some True\<rparr>"]
  show ?thesis by blast
qed

text \<open>
  C10. \<^verbatim>\<open>filterJobs\<close> tests its options for truthiness: a \<^verbatim>\<open>minSalary\<close> of 0 gives what an
  absent \<^verbatim>\<open>minSalary\<close> gives, an empty \<^verbatim>\<open>title\<close> what an absent \<^verbatim>\<open>title\<close> gives, whatever
  the other options; and on a non-empty collection the options \<^verbatim>\<open>{minSalary: 0}\<close> return
  the whole collection.
\<close>

theorem falsy_options_do_not_narrow:
  "filterJobs data (opts\<lparr>minSalary := Some 0\<rparr>) = filterJobs data (opts\<lparr>minSalary := None\<rparr>)
   \<and> filterJobs data (opts\<lparr>title := Some ''''\<rparr>) = filterJobs data (opts\<lparr>title := None\<rparr>)
   \<and> (data \<noteq> [] \<longrightarrow>
        filterJobs data \<lparr>title = None, minSalary = Some 0, hasEquity = None\<rparr> = Inr data)"
  by (simp add: filterJobs_def truthy_string_def truthy_number_def truthy_boolean_def)

theorem falsy_options_do_not_narrow_witness:
  "[j1, j2, j3] \<noteq> []
   \<and> filterJobs [j1, j2, j3] \<lparr>title = None, minSalary = Some 0, hasEquity = None\<rparr>
       = Inr [j1, j2, j3]
   \<and> filterJobs [j1, j2, j3] \<lparr>title = Some '''', minSalary = Some 0, hasEquity = Some False\<rparr>
       = filterJobs [j1, j2, j3] \<lparr>title = None, minSalary = None, hasEquity = Some False\<rparr>"
  using falsy_options_do_not_narrow
          [of "[j1, j2, j3]" "\<lparr>title = None, minSalary = None, hasEquity = None\<rparr>"]
        falsy_options_do_not_narrow
          [of "[j1, j2, j3]" "\<lparr>title = Some '''', minSalary = None, hasEquity = Some False\<rparr>"]
        falsy_options_do_not_narrow
          [of "[j1, j2, j3]" "\<lparr>title = None, minSalary = None, hasEquity = Some False\<rparr>"]
  by (simp del: filterJobs_def)

end
